theory Spec2Isabelle
  imports Complex_Main
begin

section \<open>Data model\<close>

text \<open>
  The program reads its table through pandas. A cell is what iterating a column yields:
  a Python \<open>int\<close>, \<open>float\<close>, \<open>bool\<close> or \<open>str\<close>, or a missing value (\<open>None\<close>/\<open>NaN\<close>,
  whatever \<open>isnull()\<close> answers true on). A column is the list of its cells in row order, and
  a data frame is the list of its labelled columns in column order. Column labels are
  taken to be unique, as \<open>read_csv\<close> makes them; \<open>data['age']\<close> is the lookup by label.
  A \<open>float\<close> is taken by its value, a real number: the program only asks whether it is
  below zero. \<open>NaN\<close> is the missing value, and the infinities are left out.
\<close>

datatype cell = Null | Integer int | Float real | Boolean bool | Text string

type_synonym series = "cell list"

type_synonym dataframe = "(string \<times> series) list"

text \<open>
  The exception classes of \<open>main.py\<close> (lines 18-28), each with its message, and the two
  host exceptions the pandas expressions of the program can raise. The first three are
  the subclasses of \<open>DataQualityError\<close>.
\<close>

datatype exn =
    MissingDataError string
  | DataRangeError string
  | DataFormatError string
  | KeyError string
  | TypeError string

fun is_DataQualityError :: "exn \<Rightarrow> bool" where
  "is_DataQualityError (MissingDataError m) = True"
| "is_DataQualityError (DataRangeError m) = True"
| "is_DataQualityError (DataFormatError m) = True"
| "is_DataQualityError (KeyError k) = False"
| "is_DataQualityError (TypeError m) = False"

definition squote :: "string \<Rightarrow> string" where
  "squote s = CHR 0x27 # s @ [CHR 0x27]"

text \<open>\<open>str(e)\<close>: the message, and for a \<open>KeyError\<close> the quoted key.\<close>

fun str_exn :: "exn \<Rightarrow> string" where
  "str_exn (MissingDataError m) = m"
| "str_exn (DataRangeError m) = m"
| "str_exn (DataFormatError m) = m"
| "str_exn (KeyError k) = squote k"
| "str_exn (TypeError m) = m"

subsection \<open>The log\<close>

text \<open>
  \<open>logging.basicConfig\<close> (lines 11-15) sends every record of level \<open>DEBUG\<close> and above to
  one file. A record is kept as its level, its format string and its arguments; the
  time stamp of the format is left out.
\<close>

datatype level = INFO | WARNING | ERROR

datatype log_arg = StrArg string | DictArg "(string \<times> nat) list"

type_synonym log_record = "level \<times> string \<times> log_arg list"

text \<open>
  What a call can read or change: the data frame its argument refers to, and the log
  file.
\<close>

record world =
  data :: dataframe
  logfile :: "log_record list"

definition logging_info :: "string \<Rightarrow> log_arg list \<Rightarrow> world \<Rightarrow> world" where
  "logging_info msg args w = w\<lparr>logfile := logfile w @ [(INFO, msg, args)]\<rparr>"

definition logging_warning :: "string \<Rightarrow> log_arg list \<Rightarrow> world \<Rightarrow> world" where
  "logging_warning msg args w = w\<lparr>logfile := logfile w @ [(WARNING, msg, args)]\<rparr>"

definition logging_error :: "string \<Rightarrow> log_arg list \<Rightarrow> world \<Rightarrow> world" where
  "logging_error msg args w = w\<lparr>logfile := logfile w @ [(ERROR, msg, args)]\<rparr>"

subsection \<open>The pandas expressions the program uses\<close>

text \<open>\<open>data.isnull().values.any()\<close>: some cell of some column is missing.\<close>

definition isnull_values_any :: "dataframe \<Rightarrow> bool" where
  "isnull_values_any df = list_ex (\<lambda>(c, s). list_ex (\<lambda>x. x = Null) s) df"

text \<open>\<open>data.isnull().sum()\<close>: the number of missing cells of each column.\<close>

definition isnull_sum :: "dataframe \<Rightarrow> (string \<times> nat) list" where
  "isnull_sum df = map (\<lambda>(c, s). (c, count_list s Null)) df"

text \<open>\<open>missing_info[missing_info > 0].to_dict()\<close>\<close>

definition positive_to_dict :: "(string \<times> nat) list \<Rightarrow> (string \<times> nat) list" where
  "positive_to_dict missing_info = filter (\<lambda>(c, n). 0 < n) missing_info"

text \<open>\<open>'age' in data.columns\<close>\<close>

definition in_columns :: "string \<Rightarrow> dataframe \<Rightarrow> bool" where
  "in_columns k df = (k \<in> set (map fst df))"

text \<open>\<open>data['age']\<close>: the column, or \<open>KeyError\<close>.\<close>

definition getitem :: "dataframe \<Rightarrow> string \<Rightarrow> exn + series" where
  "getitem df k = (case map_of df k of None \<Rightarrow> Inl (KeyError k) | Some s \<Rightarrow> Inr s)"

text \<open>
  \<open>x < 0\<close> on one cell of a column that holds no string: a number is compared, \<open>True\<close>
  and \<open>False\<close> count as 1 and 0, and a missing value compares false.
\<close>

fun cell_lt0 :: "cell \<Rightarrow> bool" where
  "cell_lt0 (Integer i) = (i < 0)"
| "cell_lt0 (Float r) = (r < 0)"
| "cell_lt0 (Boolean b) = False"
| "cell_lt0 Null = False"
| "cell_lt0 (Text t) = False"

fun is_Text :: "cell \<Rightarrow> bool" where
  "is_Text (Text t) = True"
| "is_Text c = False"

definition lt_not_supported :: string where
  "lt_not_supported =
     squote ''<'' @ '' not supported between instances of '' @ squote ''str'' @
     '' and '' @ squote ''int''"

text \<open>
  \<open>(s < 0).any()\<close>: pandas compares the whole column first and raises \<open>TypeError\<close> when
  a cell is a string; otherwise the answer is whether some cell is below zero.
\<close>

definition lt0_any :: "series \<Rightarrow> exn + bool" where
  "lt0_any s =
     (if list_ex is_Text s then Inl (TypeError lt_not_supported)
      else Inr (list_ex cell_lt0 s))"

text \<open>\<open>isinstance(x, int)\<close>: \<open>bool\<close> is a subclass of \<open>int\<close>.\<close>

fun isinstance_int :: "cell \<Rightarrow> bool" where
  "isinstance_int (Integer i) = True"
| "isinstance_int (Boolean b) = True"
| "isinstance_int c = False"

section \<open>validate_data\<close>

text \<open>
  The body of the \<open>try\<close> block (lines 49-66). The three checks run in the order of the
  source; a \<open>raise\<close> ends the block with \<open>Inl\<close>. The range check is guarded by
  \<open>'age' in data.columns\<close> (and \<open>and\<close> does not evaluate its right side when the left is
  false); the format check reads \<open>data['age']\<close> with no guard.
\<close>

definition validate_data_try :: "world \<Rightarrow> (exn + unit) \<times> world" where
  "validate_data_try w0 =
     (let w1 = logging_info ''Validating for missing data.'' [] w0 in
      if isnull_values_any (data w1) then
        (let missing_info = isnull_sum (data w1);
             w2 = logging_warning ''Missing data found in columns: %s''
                    [DictArg (positive_to_dict missing_info)] w1
         in (Inl (MissingDataError ''Missing data found.''), w2))
      else
        (let w3 = logging_info ''Checking for data range issues.'' [] w1 in
         case (if in_columns ''age'' (data w3)
               then (case getitem (data w3) ''age'' of
                       Inl e \<Rightarrow> Inl e
                     | Inr s \<Rightarrow> lt0_any s)
               else Inr False) of
           Inl e \<Rightarrow> (Inl e, w3)
         | Inr True \<Rightarrow>
             (let w4 = logging_warning ''Invalid age values found.'' [] w3
              in (Inl (DataRangeError ''Invalid age values identified.''), w4))
         | Inr False \<Rightarrow>
             (let w5 = logging_info ''Checking for data format issues.'' [] w3 in
              case getitem (data w5) ''age'' of
                Inl e \<Rightarrow> (Inl e, w5)
              | Inr s \<Rightarrow>
                  if \<not> list_all isinstance_int s then
                    (let w6 = logging_warning ''Non-integer values found in age column.'' [] w5
                     in (Inl (DataFormatError ''Non-integer values found in age column.''), w6))
                  else (Inr (), w5))))"

text \<open>
  The whole function (lines 46-72): \<open>except DataQualityError\<close> logs the failure and
  raises it again, any other exception passes through unlogged, and the last line is
  reached only when nothing was raised.
\<close>

definition validate_data :: "world \<Rightarrow> (exn + unit) \<times> world" where
  "validate_data w0 =
     (case validate_data_try w0 of
        (Inl e, w) \<Rightarrow>
          if is_DataQualityError e
          then (Inl e, logging_error ''Data validation failed: %s'' [StrArg (str_exn e)] w)
          else (Inl e, w)
      | (Inr u, w) \<Rightarrow> (Inr (), logging_info ''Data validation passed.'' [] w))"

section \<open>traceback_data_issues\<close>

text \<open>
  A step of the operation trace is a dictionary with a \<open>'name'\<close> and a \<open>'function'\<close>. The
  function is a predicate on the data frame, as the three of \<open>main\<close> are: it reads the
  frame and answers (the truth value of what it returns), or raises. A callable that
  writes to the frame or to the log is outside this model.
\<close>

record step =
  step_name :: string
  step_function :: "dataframe \<Rightarrow> exn + bool"

text \<open>
  The \<open>for\<close> loop (lines 80-84): \<open>Inr (Some n)\<close> is the \<open>return\<close> inside the loop,
  \<open>Inr None\<close> is the loop running to its end.
\<close>

fun trace_loop :: "step list \<Rightarrow> world \<Rightarrow> (exn + string option) \<times> world" where
  "trace_loop [] w = (Inr None, w)"
| "trace_loop (st # rest) w =
     (let w1 = logging_info ''Checking step: %s'' [StrArg (step_name st)] w in
      case step_function st (data w1) of
        Inl e \<Rightarrow> (Inl e, w1)
      | Inr True \<Rightarrow>
          (Inr (Some (step_name st)),
           logging_info ''Issue identified at step: %s'' [StrArg (step_name st)] w1)
      | Inr False \<Rightarrow> trace_loop rest w1)"

text \<open>
  The whole function (lines 75-90): \<open>except Exception\<close> logs the error and raises it
  again.
\<close>

definition traceback_data_issues :: "step list \<Rightarrow> world \<Rightarrow> (exn + string) \<times> world" where
  "traceback_data_issues operation_trace w0 =
     (let w1 = logging_info ''Tracing back data issues through pipeline.'' [] w0 in
      case trace_loop operation_trace w1 of
        (Inl e, w) \<Rightarrow>
          (Inl e, logging_error ''Error during traceback: %s'' [StrArg (str_exn e)] w)
      | (Inr (Some n), w) \<Rightarrow> (Inr n, w)
      | (Inr None, w) \<Rightarrow>
          (Inr ''Unknown origin'',
           logging_info ''No specific origin identified for the issues.'' [] w))"

text \<open>The three steps of \<open>main\<close> (lines 100-104).\<close>

definition data_load :: "dataframe \<Rightarrow> exn + bool" where
  "data_load d = Inr (isnull_values_any d)"

definition transformation_a :: "dataframe \<Rightarrow> exn + bool" where
  "transformation_a d = (case getitem d ''age'' of Inl e \<Rightarrow> Inl e | Inr s \<Rightarrow> lt0_any s)"

definition transformation_b :: "dataframe \<Rightarrow> exn + bool" where
  "transformation_b d =
     (case getitem d ''age'' of
        Inl e \<Rightarrow> Inl e
      | Inr s \<Rightarrow> Inr (list_ex (\<lambda>x. \<not> isinstance_int x) s))"

definition operations_trace :: "step list" where
  "operations_trace =
     [\<lparr>step_name = ''Data Load'', step_function = data_load\<rparr>,
      \<lparr>step_name = ''Transformation A'', step_function = transformation_a\<rparr>,
      \<lparr>step_name = ''Transformation B'', step_function = transformation_b\<rparr>]"

text \<open>The record the loop writes when it comes to a step (line 81).\<close>

definition checking_step :: "step \<Rightarrow> log_record" where
  "checking_step st = (INFO, ''Checking step: %s'', [StrArg (step_name st)])"

section \<open>Evaluation rules\<close>

lemmas logging_defs = logging_info_def logging_warning_def logging_error_def

lemma in_columns_map_of: "in_columns k df = (map_of df k \<noteq> None)"
  by (simp add: in_columns_def map_of_eq_None_iff)

lemma validate_data_missing:
  assumes "isnull_values_any (data w)"
  shows "validate_data w =
    (Inl (MissingDataError ''Missing data found.''),
     w\<lparr>logfile := logfile w @
        [(INFO, ''Validating for missing data.'', []),
         (WARNING, ''Missing data found in columns: %s'',
            [DictArg (positive_to_dict (isnull_sum (data w)))]),
         (ERROR, ''Data validation failed: %s'', [StrArg ''Missing data found.''])]\<rparr>)"
  using assms by (simp add: validate_data_def validate_data_try_def logging_defs)

lemma validate_data_no_age:
  assumes "\<not> isnull_values_any (data w)" and "map_of (data w) ''age'' = None"
  shows "validate_data w =
    (Inl (KeyError ''age''),
     w\<lparr>logfile := logfile w @
        [(INFO, ''Validating for missing data.'', []),
         (INFO, ''Checking for data range issues.'', []),
         (INFO, ''Checking for data format issues.'', [])]\<rparr>)"
  using assms
  by (simp add: validate_data_def validate_data_try_def logging_defs in_columns_map_of
      getitem_def)

lemma validate_data_age:
  assumes "\<not> isnull_values_any (data w)" and "map_of (data w) ''age'' = Some s"
  shows "validate_data w =
    (if list_ex is_Text s then
       (Inl (TypeError lt_not_supported),
        w\<lparr>logfile := logfile w @
          [(INFO, ''Validating for missing data.'', []),
           (INFO, ''Checking for data range issues.'', [])]\<rparr>)
     else if list_ex cell_lt0 s then
       (Inl (DataRangeError ''Invalid age values identified.''),
        w\<lparr>logfile := logfile w @
          [(INFO, ''Validating for missing data.'', []),
           (INFO, ''Checking for data range issues.'', []),
           (WARNING, ''Invalid age values found.'', []),
           (ERROR, ''Data validation failed: %s'',
              [StrArg ''Invalid age values identified.''])]\<rparr>)
     else if \<not> list_all isinstance_int s then
       (Inl (DataFormatError ''Non-integer values found in age column.''),
        w\<lparr>logfile := logfile w @
          [(INFO, ''Validating for missing data.'', []),
           (INFO, ''Checking for data range issues.'', []),
           (INFO, ''Checking for data format issues.'', []),
           (WARNING, ''Non-integer values found in age column.'', []),
           (ERROR, ''Data validation failed: %s'',
              [StrArg ''Non-integer values found in age column.''])]\<rparr>)
     else
       (Inr (),
        w\<lparr>logfile := logfile w @
          [(INFO, ''Validating for missing data.'', []),
           (INFO, ''Checking for data range issues.'', []),
           (INFO, ''Checking for data format issues.'', []),
           (INFO, ''Data validation passed.'', [])]\<rparr>))"
  using assms
  by (simp add: validate_data_def validate_data_try_def logging_defs in_columns_map_of
      getitem_def lt0_any_def)

text \<open>The three ways a call can go, by what the frame holds.\<close>

lemma validate_data_cases:
  obtains (missing) "isnull_values_any (data w)"
  | (no_age) "\<not> isnull_values_any (data w)" and "map_of (data w) ''age'' = None"
  | (age) s where "\<not> isnull_values_any (data w)" and "map_of (data w) ''age'' = Some s"
  by (cases "isnull_values_any (data w)"; cases "map_of (data w) ''age''") auto

lemma validate_data_keeps_data: "data (snd (validate_data w)) = data w"
proof (cases w rule: validate_data_cases)
  case missing
  then show ?thesis by (simp add: validate_data_missing)
next
  case no_age
  then show ?thesis by (simp add: validate_data_no_age)
next
  case (age s)
  then show ?thesis by (simp add: validate_data_age)
qed

lemma validate_data_outcome_of_data:
  assumes "data w' = data w"
  shows "fst (validate_data w') = fst (validate_data w)"
proof (cases w rule: validate_data_cases)
  case missing
  with assms show ?thesis by (simp add: validate_data_missing)
next
  case no_age
  with assms show ?thesis by (simp add: validate_data_no_age)
next
  case (age s)
  with assms show ?thesis by (simp add: validate_data_age)
qed

lemma validate_data_appends:
  assumes "data w' = data w"
  shows "logfile (snd (validate_data w')) =
         logfile w' @ drop (length (logfile w)) (logfile (snd (validate_data w)))"
proof (cases w rule: validate_data_cases)
  case missing
  with assms show ?thesis by (simp add: validate_data_missing)
next
  case no_age
  with assms show ?thesis by (simp add: validate_data_no_age)
next
  case (age s)
  with assms show ?thesis by (simp add: validate_data_age)
qed

lemma isinstance_int_not_Text: "isinstance_int c \<Longrightarrow> \<not> is_Text c"
  by (cases c) simp_all

subsection \<open>The loop of the trace\<close>

lemma trace_loop_keeps_data: "data (snd (trace_loop ops w)) = data w"
proof (induction ops arbitrary: w)
  case Nil
  show ?case by simp
next
  case (Cons st rest)
  show ?case
  proof (cases "step_function st (data w)")
    case (Inl e)
    then show ?thesis by (simp add: logging_defs)
  next
    case (Inr b)
    then show ?thesis using Cons.IH by (cases b) (simp_all add: logging_defs)
  qed
qed

lemma trace_loop_false_prefix:
  assumes "list_all (\<lambda>st. step_function st (data w) = Inr False) pre"
  shows "trace_loop (pre @ rest) w =
         trace_loop rest (w\<lparr>logfile := logfile w @ map checking_step pre\<rparr>)"
  using assms
proof (induction pre arbitrary: w)
  case Nil
  show ?case by simp
next
  case (Cons st pre)
  from Cons.prems have "step_function st (data w) = Inr False"
    and "list_all (\<lambda>st. step_function st
           (data (w\<lparr>logfile := logfile w @ [checking_step st]\<rparr>)) = Inr False) pre"
    by simp_all
  then show ?case
    using Cons.IH [of "w\<lparr>logfile := logfile w @ [checking_step st]\<rparr>"]
    by (simp add: logging_defs checking_step_def)
qed


lemma isnull_values_any_iff:
  "isnull_values_any df \<longleftrightarrow> (\<exists>c s. (c, s) \<in> set df \<and> Null \<in> set s)"
  by (auto simp: isnull_values_any_def list_ex_iff)

subsection \<open>The whole trace\<close>

lemma traceback_data_issues_keeps_data:
  "data (snd (traceback_data_issues ops w)) = data w"
proof -
  let ?w1 = "logging_info ''Tracing back data issues through pipeline.'' [] w"
  obtain r w' where l: "trace_loop ops ?w1 = (r, w')"
    by (cases "trace_loop ops ?w1")
  have "data w' = data ?w1"
    using trace_loop_keeps_data [of ops ?w1] l by simp
  then have "data w' = data w"
    by (simp add: logging_defs)
  with l show ?thesis
    by (simp add: traceback_data_issues_def logging_defs split: sum.split option.split)
qed


section \<open>Validation of a frame with no age column\<close>

text \<open>
  Claim C8. For every data frame with no missing cell and no column named \<open>age\<close>,
  \<open>validate_data\<close> raises \<open>KeyError\<close> from \<open>data['age']\<close> in the format check: the range
  check is guarded by \<open>'age' in data.columns\<close>, the format check is not. \<open>KeyError\<close> is no
  \<open>DataQualityError\<close>, so the \<open>except\<close> clause does not handle it: the log ends with the
  record of the format check starting, and holds no record of a failed validation.
\<close>

theorem validate_data_without_age_KeyError:
  assumes "\<not> isnull_values_any (data w)" and "\<not> in_columns ''age'' (data w)"
  shows "fst (validate_data w) = Inl (KeyError ''age'')
       \<and> \<not> is_DataQualityError (KeyError ''age'')
       \<and> logfile (snd (validate_data w)) =
           logfile w @
           [(INFO, ''Validating for missing data.'', []),
            (INFO, ''Checking for data range issues.'', []),
            (INFO, ''Checking for data format issues.'', [])]"
proof -
  from assms(2) have "map_of (data w) ''age'' = None"
    by (simp add: in_columns_map_of)
  with assms(1) show ?thesis
    by (simp add: validate_data_no_age)
qed

theorem validate_data_without_age_KeyError_witness:
  "\<not> isnull_values_any [(''id'', [Integer 1, Integer 2])]
   \<and> \<not> in_columns ''age'' [(''id'', [Integer 1, Integer 2])]
   \<and> fst (validate_data \<lparr>data = [(''id'', [Integer 1, Integer 2])], logfile = []\<rparr>) =
       Inl (KeyError ''age'')
   \<and> logfile (snd (validate_data \<lparr>data = [(''id'', [Integer 1, Integer 2])], logfile = []\<rparr>)) =
       [(INFO, ''Validating for missing data.'', []),
        (INFO, ''Checking for data range issues.'', []),
        (INFO, ''Checking for data format issues.'', [])]"
proof -
  have h1: "\<not> isnull_values_any (data \<lparr>data = [(''id'', [Integer 1, Integer 2])], logfile = []\<rparr>)"
    by (simp add: isnull_values_any_def)
  have h2: "\<not> in_columns ''age'' (data \<lparr>data = [(''id'', [Integer 1, Integer 2])], logfile = []\<rparr>)"
    by (simp add: in_columns_def)
  show ?thesis
    using h1 h2 validate_data_without_age_KeyError [OF h1 h2] by simp
qed

section \<open>Validation of a clean frame\<close>

text \<open>
  Claim C1. A data frame with no missing cell, no value out of range and no value of the
  wrong format is to pass validation. The frame below has one column of names: it has no
  missing cell and no \<open>age\<close> column, so nothing in it is out of range or ill-formed; yet
  \<open>validate_data\<close> does not return, it raises \<open>KeyError\<close>.
\<close>

theorem validate_data_clean_frame_raises:
  "\<not> isnull_values_any [(''name'', [Text ''Ann'', Text ''Bob''])]
   \<and> \<not> in_columns ''age'' [(''name'', [Text ''Ann'', Text ''Bob''])]
   \<and> fst (validate_data \<lparr>data = [(''name'', [Text ''Ann'', Text ''Bob''])], logfile = []\<rparr>) =
       Inl (KeyError ''age'')"
  by (simp add: validate_data_def validate_data_try_def logging_defs isnull_values_any_def
      in_columns_def getitem_def)

text \<open>
  Where the frame has an \<open>age\<close> column, the clean frame does pass: no missing cell, and
  every age an \<open>int\<close> that is not below zero.
\<close>

lemma validate_data_clean_passes:
  assumes "\<not> isnull_values_any (data w)" and "map_of (data w) ''age'' = Some s"
    and "list_all (\<lambda>c. isinstance_int c \<and> \<not> cell_lt0 c) s"
  shows "fst (validate_data w) = Inr ()"
proof -
  from assms(3) have "\<not> list_ex is_Text s" and "\<not> list_ex cell_lt0 s"
    and "list_all isinstance_int s"
    by (auto simp: list_all_iff list_ex_iff dest: isinstance_int_not_Text)
  with assms(1,2) show ?thesis by (simp add: validate_data_age)
qed

section \<open>The missing-data check\<close>

text \<open>What the reported dictionary holds.\<close>

lemma set_positive_to_dict_isnull_sum:
  "set (positive_to_dict (isnull_sum df)) =
   {(c, count_list s Null) | c s. (c, s) \<in> set df \<and> Null \<in> set s}"
proof -
  have "0 < count_list s Null \<longleftrightarrow> Null \<in> set s" for s :: series
    using count_list_0_iff [of s Null] by auto
  then show ?thesis
    by (auto simp: positive_to_dict_def isnull_sum_def)
qed

text \<open>
  Claim C5. For every data frame with at least one missing cell, the missing-data check
  reports exactly the columns that have a missing cell, each with the number of its
  missing cells: the dictionary in the warning record, which is written just before
  \<open>MissingDataError\<close> is raised, holds the pair of a column and its count for every
  column with a missing cell and nothing else, so its keys are the set of those columns.
\<close>

theorem missing_data_reports_columns:
  assumes "isnull_values_any (data w)"
  shows "fst (validate_data w) = Inl (MissingDataError ''Missing data found.'')
       \<and> logfile (snd (validate_data w)) =
           logfile w @
           [(INFO, ''Validating for missing data.'', []),
            (WARNING, ''Missing data found in columns: %s'',
               [DictArg (positive_to_dict (isnull_sum (data w)))]),
            (ERROR, ''Data validation failed: %s'', [StrArg ''Missing data found.''])]
       \<and> set (positive_to_dict (isnull_sum (data w))) =
           {(c, count_list s Null) | c s. (c, s) \<in> set (data w) \<and> Null \<in> set s}
       \<and> fst ` set (positive_to_dict (isnull_sum (data w))) =
           {c. \<exists>s. (c, s) \<in> set (data w) \<and> Null \<in> set s}"
proof -
  have "fst ` set (positive_to_dict (isnull_sum (data w))) =
        {c. \<exists>s. (c, s) \<in> set (data w) \<and> Null \<in> set s}"
    unfolding set_positive_to_dict_isnull_sum by force
  with assms show ?thesis
    by (simp add: validate_data_missing set_positive_to_dict_isnull_sum)
qed

theorem missing_data_reports_columns_witness:
  "isnull_values_any
     [(''name'', [Text ''Ann'', Null, Null]), (''age'', [Integer 25, Null, Integer 40]),
      (''city'', [Text ''Oslo'', Text ''Rome'', Text ''Lima''])]
   \<and> positive_to_dict (isnull_sum
       [(''name'', [Text ''Ann'', Null, Null]), (''age'', [Integer 25, Null, Integer 40]),
        (''city'', [Text ''Oslo'', Text ''Rome'', Text ''Lima''])]) =
       [(''name'', 2), (''age'', 1)]
   \<and> {c. \<exists>s. (c, s) \<in> set
          [(''name'', [Text ''Ann'', Null, Null]), (''age'', [Integer 25, Null, Integer 40]),
           (''city'', [Text ''Oslo'', Text ''Rome'', Text ''Lima''])] \<and> Null \<in> set s} =
       {''name'', ''age''}"
proof -
  let ?d = "[(''name'', [Text ''Ann'', Null, Null]), (''age'', [Integer 25, Null, Integer 40]),
             (''city'', [Text ''Oslo'', Text ''Rome'', Text ''Lima''])]"
  have h: "isnull_values_any (data \<lparr>data = ?d, logfile = []\<rparr>)"
    by (simp add: isnull_values_any_def)
  have v: "positive_to_dict (isnull_sum ?d) = [(''name'', 2), (''age'', 1)]"
    by (simp add: positive_to_dict_def isnull_sum_def)
  have e: "data \<lparr>data = ?d, logfile = []\<rparr> = ?d"
    by simp
  from missing_data_reports_columns [OF h]
  have "fst ` set (positive_to_dict (isnull_sum ?d)) =
        {c. \<exists>s. (c, s) \<in> set ?d \<and> Null \<in> set s}"
    unfolding e by (elim conjE)
  then have "{c. \<exists>s. (c, s) \<in> set ?d \<and> Null \<in> set s} = {''name'', ''age''}"
    unfolding v by simp
  moreover from h have "isnull_values_any ?d"
    unfolding e .
  ultimately show ?thesis
    using v by (intro conjI)
qed

section \<open>Stopping at the first violation\<close>



text \<open>
  On that frame the checks further down were not run. Run on their own, the range
  comparison would answer false (a missing value is not below zero) and the format
  check would find a value that is no \<open>int\<close>.
\<close>

lemma null_age_downstream_checks:
  "lt0_any [Integer 25, Null, Integer 40] = Inr False
   \<and> \<not> list_all isinstance_int [Integer 25, Null, Integer 40]"
  by (simp add: lt0_any_def)

section \<open>Findings are raised\<close>




section \<open>The range check\<close>

text \<open>
  Claim C7, as the code has it. With \<open>age = [25, -3, 40]\<close> the range check fails, but
  neither the exception nor the log names a row or a value: the message and the records
  are fixed texts, and a frame whose only age below zero is \<open>-8\<close> in row 2 gives the same
  exception and the same log.
\<close>

theorem range_violation_names_no_row:
  "validate_data \<lparr>data = [(''age'', [Integer 25, Integer (- 3), Integer 40])], logfile = []\<rparr> =
     (Inl (DataRangeError ''Invalid age values identified.''),
      \<lparr>data = [(''age'', [Integer 25, Integer (- 3), Integer 40])],
       logfile =
         [(INFO, ''Validating for missing data.'', []),
          (INFO, ''Checking for data range issues.'', []),
          (WARNING, ''Invalid age values found.'', []),
          (ERROR, ''Data validation failed: %s'',
             [StrArg ''Invalid age values identified.''])]\<rparr>)
   \<and> fst (validate_data
          \<lparr>data = [(''age'', [Integer 25, Integer (- 3), Integer 40])], logfile = []\<rparr>) =
       fst (validate_data
          \<lparr>data = [(''age'', [Integer 40, Integer 25, Integer (- 8)])], logfile = []\<rparr>)
   \<and> logfile (snd (validate_data
          \<lparr>data = [(''age'', [Integer 25, Integer (- 3), Integer 40])], logfile = []\<rparr>)) =
       logfile (snd (validate_data
          \<lparr>data = [(''age'', [Integer 40, Integer 25, Integer (- 8)])], logfile = []\<rparr>))"
  by (simp add: validate_data_def validate_data_try_def logging_defs isnull_values_any_def
      in_columns_def getitem_def lt0_any_def)

text \<open>
  Claim C7, amended. The range check of the \<open>age\<close> column has the lower bound 0 and no
  upper bound. \<open>validate_data\<close> raises \<open>DataRangeError\<close> if and only if the frame has no
  missing cell and has an \<open>age\<close> column that holds no string and some value below zero.
  The exception carries the fixed message \<open>Invalid age values identified.\<close> and the call
  writes the same four records whatever the rows are: no row index and no value is
  listed.
\<close>

theorem age_range_check:
  "(fst (validate_data w) = Inl (DataRangeError ''Invalid age values identified.'') \<longleftrightarrow>
      \<not> isnull_values_any (data w) \<and>
      (\<exists>s. map_of (data w) ''age'' = Some s \<and> \<not> list_ex is_Text s \<and> list_ex cell_lt0 s))
   \<and> (\<forall>m. fst (validate_data w) = Inl (DataRangeError m) \<longrightarrow>
          m = ''Invalid age values identified.'' \<and>
          logfile (snd (validate_data w)) =
            logfile w @
            [(INFO, ''Validating for missing data.'', []),
             (INFO, ''Checking for data range issues.'', []),
             (WARNING, ''Invalid age values found.'', []),
             (ERROR, ''Data validation failed: %s'',
                [StrArg ''Invalid age values identified.''])])"
proof (cases w rule: validate_data_cases)
  case missing
  then show ?thesis by (simp add: validate_data_missing)
next
  case no_age
  then show ?thesis by (simp add: validate_data_no_age)
next
  case (age s)
  then show ?thesis by (simp add: validate_data_age)
qed

theorem age_range_check_witness:
  "\<not> isnull_values_any [(''age'', [Integer 25, Integer (- 3), Integer 40])]
   \<and> map_of [(''age'', [Integer 25, Integer (- 3), Integer 40])] ''age'' =
       Some [Integer 25, Integer (- 3), Integer 40]
   \<and> \<not> list_ex is_Text [Integer 25, Integer (- 3), Integer 40]
   \<and> list_ex cell_lt0 [Integer 25, Integer (- 3), Integer 40]
   \<and> fst (validate_data
          \<lparr>data = [(''age'', [Integer 25, Integer (- 3), Integer 40])], logfile = []\<rparr>) =
       Inl (DataRangeError ''Invalid age values identified.'')"
proof -
  let ?s = "[Integer 25, Integer (- 3), Integer 40]"
  let ?w = "\<lparr>data = [(''age'', ?s)], logfile = []\<rparr>"
  have h: "\<not> isnull_values_any (data ?w) \<and>
           (\<exists>s. map_of (data ?w) ''age'' = Some s \<and> \<not> list_ex is_Text s \<and> list_ex cell_lt0 s)"
    by (simp add: isnull_values_any_def)
  from age_range_check [of ?w] h
  have "fst (validate_data ?w) = Inl (DataRangeError ''Invalid age values identified.'')"
    by blast
  then show ?thesis
    by (simp add: isnull_values_any_def)
qed

section \<open>Validating twice\<close>

text \<open>
  Claim C9. Calling \<open>validate_data\<close> twice on the same unmodified data frame gives the same
  outcome both times: the second call, made in the world the first one left, returns or
  raises exactly as the first did and writes the same records again. The outcome is a
  function of the frame alone: in any two worlds that hold the same frame, whatever their
  logs, the call returns or raises the same.
\<close>

theorem validate_data_twice:
  "fst (validate_data (snd (validate_data w))) = fst (validate_data w)
   \<and> drop (length (logfile (snd (validate_data w))))
        (logfile (snd (validate_data (snd (validate_data w))))) =
      drop (length (logfile w)) (logfile (snd (validate_data w)))
   \<and> (\<forall>w'. data w' = data w \<longrightarrow> fst (validate_data w') = fst (validate_data w))"
proof -
  let ?w1 = "snd (validate_data w)"
  have d: "data ?w1 = data w"
    by (rule validate_data_keeps_data)
  have "fst (validate_data ?w1) = fst (validate_data w)"
    using d by (rule validate_data_outcome_of_data)
  moreover have "drop (length (logfile ?w1)) (logfile (snd (validate_data ?w1))) =
      drop (length (logfile w)) (logfile (snd (validate_data w)))"
    using validate_data_appends [OF d] by simp
  moreover have "\<forall>w'. data w' = data w \<longrightarrow> fst (validate_data w') = fst (validate_data w)"
    by (intro allI impI) (rule validate_data_outcome_of_data)
  ultimately show ?thesis
    by (intro conjI)
qed

theorem validate_data_twice_witness:
  "data \<lparr>data = [(''age'', [Integer 30, Float 41.5])],
         logfile = [(INFO, ''Data loaded successfully.'', [])]\<rparr> =
   data \<lparr>data = [(''age'', [Integer 30, Float 41.5])], logfile = []\<rparr>
   \<and> fst (validate_data \<lparr>data = [(''age'', [Integer 30, Float 41.5])],
         logfile = [(INFO, ''Data loaded successfully.'', [])]\<rparr>) =
       fst (validate_data \<lparr>data = [(''age'', [Integer 30, Float 41.5])], logfile = []\<rparr>)
   \<and> fst (validate_data \<lparr>data = [(''age'', [Integer 30, Float 41.5])], logfile = []\<rparr>) =
       Inl (DataFormatError ''Non-integer values found in age column.'')"
proof -
  let ?w = "\<lparr>data = [(''age'', [Integer 30, Float 41.5])], logfile = []\<rparr>"
  let ?w' = "\<lparr>data = [(''age'', [Integer 30, Float 41.5])],
              logfile = [(INFO, ''Data loaded successfully.'', [])]\<rparr>"
  have h: "data ?w' = data ?w"
    by simp
  from validate_data_twice [of ?w]
  have a: "\<forall>w'. data w' = data ?w \<longrightarrow> fst (validate_data w') = fst (validate_data ?w)"
    by (elim conjE)
  have "fst (validate_data ?w') = fst (validate_data ?w)"
    by (rule a [THEN spec, THEN mp, OF h])
  moreover have "fst (validate_data ?w) =
      Inl (DataFormatError ''Non-integer values found in age column.'')"
    by (simp add: validate_data_def validate_data_try_def logging_defs isnull_values_any_def
        in_columns_def getitem_def lt0_any_def)
  ultimately show ?thesis
    using h by (intro conjI)
qed

section \<open>The data frame is only read\<close>

text \<open>
  Claim C10. Neither \<open>validate_data\<close> nor \<open>traceback_data_issues\<close> changes the data frame:
  the frame of the world after the call is the frame of the world before it, whatever
  the call returned or raised. (The steps of a trace are predicates, as those of \<open>main\<close>
  are: they read the frame.)
\<close>

theorem dataset_not_mutated:
  "data (snd (validate_data w)) = data w
   \<and> data (snd (traceback_data_issues ops w)) = data w"
  by (simp add: validate_data_keeps_data traceback_data_issues_keeps_data)

section \<open>The trace\<close>





text \<open>
  The condition on the names is needed: \<open>Unknown origin\<close> is a string like any name, so a
  step of that name whose predicate is true gives the same answer as no match.
\<close>

lemma unknown_origin_is_a_name:
  "data_load [(''age'', [Null])] = Inr True
   \<and> fst (traceback_data_issues
          [\<lparr>step_name = ''Unknown origin'', step_function = data_load\<rparr>]
          \<lparr>data = [(''age'', [Null])], logfile = []\<rparr>) = Inr ''Unknown origin''"
  by (simp add: traceback_data_issues_def data_load_def isnull_values_any_def logging_defs)

section \<open>A step that raises\<close>

text \<open>
  Claim C4, as the code has it. The first step below raises \<open>KeyError\<close> (the frame has no
  \<open>age\<close> column) and the second one's predicate is true (a cell is missing). The trace
  does not go on to the second step: it logs the error and raises it, and the log
  holds no record of the second step being checked.
\<close>

theorem traceback_aborts_on_raising_step:
  "transformation_a [(''name'', [Null])] = Inl (KeyError ''age'')
   \<and> data_load [(''name'', [Null])] = Inr True
   \<and> traceback_data_issues
        [\<lparr>step_name = ''Transformation A'', step_function = transformation_a\<rparr>,
         \<lparr>step_name = ''Data Load'', step_function = data_load\<rparr>]
        \<lparr>data = [(''name'', [Null])], logfile = []\<rparr> =
       (Inl (KeyError ''age''),
        \<lparr>data = [(''name'', [Null])],
         logfile =
           [(INFO, ''Tracing back data issues through pipeline.'', []),
            (INFO, ''Checking step: %s'', [StrArg ''Transformation A'']),
            (ERROR, ''Error during traceback: %s'', [StrArg (squote ''age'')])]\<rparr>)"
  by (simp add: traceback_data_issues_def data_load_def transformation_a_def
      isnull_values_any_def getitem_def logging_defs)

text \<open>
  Claim C4, amended. For every data frame and list of steps, if a step's predicate
  raises and every step before it answered false, \<open>traceback_data_issues\<close> logs
  \<open>Error during traceback\<close> with the error's text and raises that same error. No step
  after the raising one is examined: the log holds a \<open>Checking step\<close> record for the
  steps up to and including the raising one and for no other, and the outcome does not
  depend on the steps that follow.
\<close>

theorem traceback_reraises:
  assumes "list_all (\<lambda>st. step_function st (data w) = Inr False) pre"
    and "step_function bad (data w) = Inl e"
  shows "traceback_data_issues (pre @ bad # post) w =
           (Inl e,
            w\<lparr>logfile := logfile w @
               [(INFO, ''Tracing back data issues through pipeline.'', [])] @
               map checking_step (pre @ [bad]) @
               [(ERROR, ''Error during traceback: %s'', [StrArg (str_exn e)])]\<rparr>)"
proof -
  let ?w1 = "logging_info ''Tracing back data issues through pipeline.'' [] w"
  have d: "data ?w1 = data w"
    by (simp add: logging_defs)
  from assms(1) have "list_all (\<lambda>st. step_function st (data ?w1) = Inr False) pre"
    by (simp add: d)
  from trace_loop_false_prefix [OF this, of "bad # post"] assms(2)
  have "trace_loop (pre @ bad # post) ?w1 =
        (Inl e, w\<lparr>logfile := logfile w @
            [(INFO, ''Tracing back data issues through pipeline.'', [])] @
            map checking_step (pre @ [bad])\<rparr>)"
    by (simp add: logging_defs checking_step_def)
  then show ?thesis
    by (simp add: traceback_data_issues_def logging_defs)
qed

theorem traceback_reraises_witness:
  "list_all (\<lambda>st. step_function st [(''name'', [Text ''Ann''])] = Inr False)
     [\<lparr>step_name = ''Data Load'', step_function = data_load\<rparr>]
   \<and> transformation_a [(''name'', [Text ''Ann''])] = Inl (KeyError ''age'')
   \<and> traceback_data_issues operations_trace
        \<lparr>data = [(''name'', [Text ''Ann''])], logfile = []\<rparr> =
       (Inl (KeyError ''age''),
        \<lparr>data = [(''name'', [Text ''Ann''])],
         logfile =
           [(INFO, ''Tracing back data issues through pipeline.'', []),
            (INFO, ''Checking step: %s'', [StrArg ''Data Load'']),
            (INFO, ''Checking step: %s'', [StrArg ''Transformation A'']),
            (ERROR, ''Error during traceback: %s'', [StrArg (squote ''age'')])]\<rparr>)"
proof -
  let ?d = "[(''name'', [Text ''Ann''])]"
  let ?w = "\<lparr>data = ?d, logfile = []\<rparr>"
  let ?pre = "[\<lparr>step_name = ''Data Load'', step_function = data_load\<rparr>]"
  let ?bad = "\<lparr>step_name = ''Transformation A'', step_function = transformation_a\<rparr>"
  let ?post = "[\<lparr>step_name = ''Transformation B'', step_function = transformation_b\<rparr>]"
  have h1: "list_all (\<lambda>st. step_function st (data ?w) = Inr False) ?pre"
    by (simp add: data_load_def isnull_values_any_def)
  have h2: "step_function ?bad (data ?w) = Inl (KeyError ''age'')"
    by (simp add: transformation_a_def getitem_def)
  have o: "operations_trace = ?pre @ ?bad # ?post"
    by (simp add: operations_trace_def)
  from traceback_reraises [OF h1 h2, of ?post] h1 h2 show ?thesis
    unfolding o by (simp add: checking_step_def)
qed

end
